theory Spec2Isabelle
  imports Main "HOL-Library.Finite_Map" "HOL-Library.Sublist" "HOL-Library.Word"
begin

section \<open>The reminder service worker (service-worker.js)\<close>

text \<open>
  The worker is a set of event listeners. Each listener is modelled as a function
  from the event and the part of the platform it reads (cache storage, network,
  user agent) to what it does: the platform calls it makes, in order, the new
  cache storage, and the value it hands back to the platform. A promise is the
  value it settles to: \<open>Inr v\<close> when it fulfils with \<open>v\<close>, \<open>Inl e\<close> when it rejects.
\<close>

subsection \<open>Strings\<close>

text \<open>
  \<open>String.prototype.includes\<close>: the argument occurs somewhere in the string.
  A regular expression that is an alternation of literals, such as
  \<open>/iPad|iPhone|iPod/\<close>, tests the same for each literal. The strings searched
  (a hostname, a user agent) are held as byte strings; the literals searched for are
  ASCII, and an ASCII literal occurs among the UTF-8 bytes of a string exactly when
  it occurs among its characters.
\<close>

fun str_includes :: "string \<Rightarrow> string \<Rightarrow> bool" where
  "str_includes [] sub = (sub = [])"
| "str_includes (c # cs) sub = (prefix sub (c # cs) \<or> str_includes cs sub)"

subsection \<open>JavaScript values\<close>

text \<open>
  The values that reach the worker from outside (a parsed push payload, the data of a
  client message) and the notification options it builds are plain data. An object is
  a finite map from property names to values. A string value is the sequence of its
  16-bit code units, as JavaScript has it; \<open>units\<close> gives the code units of an ASCII
  literal, and the few characters outside ASCII in the worker's own literals are
  written as their code units. A number is carried as it is: the worker computes
  with none.
\<close>

type_synonym jstring = "16 word list"

definition units :: "string \<Rightarrow> jstring" where
  "units s = map (\<lambda>c. of_nat (of_char c)) s"

datatype json =
    JNull
  | JBool bool
  | JNum rat
  | JStr jstring
  | JArr "json list"
  | JObj "(string, json) fmap"

type_synonym obj = "(string, json) fmap"

datatype error = NetworkError | SyntaxError | TypeError

text \<open>An array index as a property name: its decimal digits.\<close>

fun index_key :: "nat \<Rightarrow> string" where
  "index_key n =
     (if n < 10 then [''0123456789'' ! n]
      else index_key (n div 10) @ [''0123456789'' ! (n mod 10)])"

text \<open>
  The own enumerable properties of a value, which is what an object spread
  \<open>{...v}\<close> copies: the members of an object, the elements of an array and the
  code units of a string under their indices (each a string of one code unit), and
  nothing for the other values.
\<close>

fun own_props :: "json \<Rightarrow> obj" where
  "own_props (JObj m) = m"
| "own_props (JArr xs) = fmap_of_list (zip (map index_key [0..<length xs]) xs)"
| "own_props (JStr s) =
     fmap_of_list (zip (map index_key [0..<length s]) (map (\<lambda>c. JStr [c]) s))"
| "own_props v = fmempty"

text \<open>What \<open>v && ...\<close> and \<open>if (v)\<close> test; \<open>None\<close> stands for \<open>undefined\<close>.\<close>

fun truthy :: "json option \<Rightarrow> bool" where
  "truthy None = False"
| "truthy (Some JNull) = False"
| "truthy (Some (JBool b)) = b"
| "truthy (Some (JNum x)) = (x \<noteq> 0)"
| "truthy (Some (JStr s)) = (s \<noteq> [])"
| "truthy (Some v) = True"

text \<open>
  A property read \<open>v.name\<close> on a value that is not \<open>null\<close> or \<open>undefined\<close>, for
  a name that no built-in prototype defines (such as \<open>type\<close> and \<open>action\<close>): an
  own property, or the length of an array or a string; \<open>None\<close> stands for
  \<open>undefined\<close>.
\<close>

fun get_prop :: "json \<Rightarrow> string \<Rightarrow> json option" where
  "get_prop (JObj m) name = fmlookup m name"
| "get_prop (JArr xs) name =
     (if name = ''length'' then Some (JNum (of_nat (length xs)))
      else fmlookup (own_props (JArr xs)) name)"
| "get_prop (JStr s) name =
     (if name = ''length'' then Some (JNum (of_nat (length s)))
      else fmlookup (own_props (JStr s)) name)"
| "get_prop v name = None"

subsection \<open>Requests, responses and the cache storage\<close>

text \<open>
  The URL of a request, held as the components that \<open>new URL(event.request.url)\<close>
  exposes: the protocol with its colon, the port as a string (empty for the scheme's
  default port), the search with its question mark and the hash with its number sign
  (empty when there is none).
\<close>

record parsed_url =
  protocol :: string
  username :: string
  password :: string
  hostname :: string
  port :: string
  pathname :: string
  search :: string
  hash :: string

text \<open>A request: its method, its URL and its headers, the names in lower case.\<close>

record request =
  req_method :: string
  url :: parsed_url
  req_headers :: "(string \<times> string) list"

text \<open>
  A response body is raw text, or the text \<open>JSON.stringify\<close> gives for a value;
  the latter is kept as the value.
\<close>

datatype body = Raw string | Stringified json

text \<open>
  A response: its status, its headers, the field names that its \<open>Vary\<close> header lists
  (in lower case, none when it has no such header) and its body.
\<close>

record response =
  status :: nat
  headers :: "(string \<times> string) list"
  vary :: "string list"
  content :: body

text \<open>
  The cache storage (\<open>caches\<close>) holds named caches in the order of their creation;
  a cache holds pairs of a request and the response stored for it, in the order in
  which they were stored.
\<close>

type_synonym cache = "(request \<times> response) list"
type_synonym cache_storage = "(string \<times> cache) list"

definition CACHE_NAME :: string where
  "CACHE_NAME = ''simple-reminders-v1''"

definition caches_keys :: "cache_storage \<Rightarrow> string list" where
  "caches_keys cs = map fst cs"

definition caches_delete :: "string \<Rightarrow> cache_storage \<Rightarrow> cache_storage" where
  "caches_delete name cs = filter (\<lambda>entry. fst entry \<noteq> name) cs"

text \<open>
  When a request matches a stored pair, with the default options of the cache
  interface: the stored request is a \<open>GET\<close>, the two URLs are equal up to their
  fragments, and for every field name of the stored response's \<open>Vary\<close> header the
  two requests carry the same value; a \<open>Vary\<close> of \<open>*\<close> matches nothing.
\<close>

definition same_resource :: "parsed_url \<Rightarrow> parsed_url \<Rightarrow> bool" where
  "same_resource a b = (a\<lparr>hash := []\<rparr> = b\<lparr>hash := []\<rparr>)"

definition vary_agrees :: "request \<Rightarrow> request \<Rightarrow> response \<Rightarrow> bool" where
  "vary_agrees query stored resp =
     list_all
       (\<lambda>field. field \<noteq> ''*''
          \<and> map_of (req_headers stored) field = map_of (req_headers query) field)
       (vary resp)"

definition matches :: "request \<Rightarrow> request \<times> response \<Rightarrow> bool" where
  "matches query entry =
     (req_method (fst entry) = ''GET''
      \<and> same_resource (url query) (url (fst entry))
      \<and> vary_agrees query (fst entry) (snd entry))"

text \<open>
  \<open>cache.match(request)\<close>: the response of the first stored pair the request
  matches; a request that is not a \<open>GET\<close> matches nothing.
\<close>

definition cache_match :: "cache \<Rightarrow> request \<Rightarrow> response option" where
  "cache_match c req =
     (if req_method req = ''GET'' then map_option snd (find (matches req) c) else None)"

text \<open>\<open>caches.match(request)\<close>: the first cache, in creation order, that has a match.\<close>

fun caches_match :: "cache_storage \<Rightarrow> request \<Rightarrow> response option" where
  "caches_match [] req = None"
| "caches_match ((name, c) # rest) req =
     (case cache_match c req of Some r \<Rightarrow> Some r | None \<Rightarrow> caches_match rest req)"

text \<open>\<open>caches.open(name)\<close> creates the cache when there is none of that name.\<close>

definition caches_open :: "string \<Rightarrow> cache_storage \<Rightarrow> cache_storage" where
  "caches_open name cs = (if name \<in> set (caches_keys cs) then cs else cs @ [(name, [])])"

text \<open>
  \<open>cache.put(request, response)\<close> rejects with a \<open>TypeError\<close> unless the request is
  a \<open>GET\<close> over \<open>http\<close> or \<open>https\<close>, the status is not 206 and the \<open>Vary\<close> header
  does not list \<open>*\<close>. Otherwise it removes the pairs the request matches and stores
  the new pair last.
\<close>

definition put_allowed :: "request \<Rightarrow> response \<Rightarrow> bool" where
  "put_allowed req resp =
     ((protocol (url req) = ''http:'' \<or> protocol (url req) = ''https:'')
      \<and> req_method req = ''GET''
      \<and> status resp \<noteq> 206
      \<and> ''*'' \<notin> set (vary resp))"

definition cache_put :: "request \<Rightarrow> response \<Rightarrow> cache \<Rightarrow> error + cache" where
  "cache_put req resp c =
     (if put_allowed req resp
      then Inr (filter (\<lambda>entry. \<not> matches req entry) c @ [(req, resp)])
      else Inl TypeError)"

text \<open>The same on the cache of a given name in the storage.\<close>

fun put_in :: "string \<Rightarrow> request \<Rightarrow> response \<Rightarrow> cache_storage \<Rightarrow> error + cache_storage" where
  "put_in name req resp [] = Inr []"
| "put_in name req resp ((n, c) # rest) =
     (if n = name
      then (case cache_put req resp c of
              Inl e \<Rightarrow> Inl e
            | Inr c' \<Rightarrow> Inr ((n, c') # rest))
      else (case put_in name req resp rest of
              Inl e \<Rightarrow> Inl e
            | Inr rest' \<Rightarrow> Inr ((n, c) # rest')))"

text \<open>The content of the cache of a given name, if there is one.\<close>

definition cache_named :: "cache_storage \<Rightarrow> string \<Rightarrow> cache option" where
  "cache_named cs name = map_of cs name"

subsection \<open>The activate listener\<close>

datatype lifecycle_call = CachesKeys | CachesDelete string | ClientsClaim

record worker =
  caches :: cache_storage
  calls :: "lifecycle_call list"
  controlling :: bool

text \<open>
  \<open>cacheNames.map(cacheName => { if (cacheName !== CACHE_NAME) return caches.delete(cacheName); })\<close>:
  one deletion is started for every name that is not the current one, in the order of
  the names.
\<close>

fun delete_old :: "string list \<Rightarrow> worker \<Rightarrow> worker" where
  "delete_old [] w = w"
| "delete_old (cacheName # rest) w =
     (if cacheName \<noteq> CACHE_NAME
      then delete_old rest
             (w\<lparr>caches := caches_delete cacheName (caches w),
                calls := calls w @ [CachesDelete cacheName]\<rparr>)
      else delete_old rest w)"

definition clients_claim :: "worker \<Rightarrow> worker" where
  "clients_claim w = w\<lparr>calls := calls w @ [ClientsClaim], controlling := True\<rparr>"

text \<open>
  \<open>caches.keys().then(names => Promise.all(...)).then(() => self.clients.claim())\<close>:
  the claim is the continuation of the promise of all deletions.
\<close>

definition activate :: "worker \<Rightarrow> worker" where
  "activate w =
     (let cacheNames = caches_keys (caches w);
          w1 = w\<lparr>calls := calls w @ [CachesKeys]\<rparr>;
          w2 = delete_old cacheNames w1
      in clients_claim w2)"

subsection \<open>The fetch listener\<close>

definition bypass :: "parsed_url \<Rightarrow> bool" where
  "bypass u = (str_includes (hostname u) ''192.168.'' \<or> port u = ''3001'')"

datatype fetch_call = CachesMatch request | NetFetch request

text \<open>
  The listener either returns without calling \<open>respondWith\<close> (the browser then handles
  the request itself, as if there were no worker), or hands \<open>respondWith\<close> a promise.
\<close>

datatype fetch_outcome = NotIntercepted | RespondWith "error + response"

text \<open>
  A run of the listener: its outcome, the calls made on the way to that outcome, and
  the cache write it started without waiting for it (cache name, request, response).
\<close>

record fetch_run =
  outcome :: fetch_outcome
  fetch_calls :: "fetch_call list"
  detached_put :: "(string \<times> request \<times> response) option"

text \<open>\<open>response.clone()\<close>: a second response with the same status, headers and body.\<close>

definition clone :: "response \<Rightarrow> response" where
  "clone r = r"

definition offline_response :: response where
  "offline_response =
     \<lparr>status = 408,
      headers = [(''Content-Type'', ''application/json'')],
      vary = [],
      content = Stringified (JObj (fmap_of_list
        [(''error'', JStr (units ''Network error'')),
         (''message'', JStr (units ''Please check your connection and try again''))]))\<rparr>"

text \<open>
  The promise \<open>caches.match(request).then(...)\<close> before its \<open>catch\<close>: the cached
  response when there is one, otherwise the result of the network fetch, with a
  cache write started for a response of status 200.
\<close>

definition cache_first ::
  "(request \<Rightarrow> error + response) \<Rightarrow> cache_storage \<Rightarrow> request \<Rightarrow> fetch_run" where
  "cache_first net cs req =
     (case caches_match cs req of
        Some cached \<Rightarrow>
          \<lparr>outcome = RespondWith (Inr cached), fetch_calls = [CachesMatch req],
           detached_put = None\<rparr>
      | None \<Rightarrow>
          (case net req of
             Inl e \<Rightarrow>
               \<lparr>outcome = RespondWith (Inl e), fetch_calls = [CachesMatch req, NetFetch req],
                detached_put = None\<rparr>
           | Inr resp \<Rightarrow>
               \<lparr>outcome = RespondWith (Inr resp), fetch_calls = [CachesMatch req, NetFetch req],
                detached_put =
                  (if status resp = 200 then Some (CACHE_NAME, req, clone resp) else None)\<rparr>))"

text \<open>\<open>.catch(error => new Response(...))\<close>: a rejection becomes the 408 response.\<close>

definition catch_offline :: "fetch_run \<Rightarrow> fetch_run" where
  "catch_offline run =
     (case outcome run of
        RespondWith (Inl e) \<Rightarrow> run\<lparr>outcome := RespondWith (Inr offline_response)\<rparr>
      | _ \<Rightarrow> run)"

definition fetch_listener ::
  "(request \<Rightarrow> error + response) \<Rightarrow> cache_storage \<Rightarrow> request \<Rightarrow> fetch_run" where
  "fetch_listener net cs req =
     (if bypass (url req)
      then \<lparr>outcome = NotIntercepted, fetch_calls = [], detached_put = None\<rparr>
      else catch_offline (cache_first net cs req))"

text \<open>
  The detached write when it runs:
  \<open>caches.open(CACHE_NAME).then(cache => { cache.put(request, clone); })\<close>.
  The result is the cache storage after it and, when \<open>put\<close> rejects, the rejection,
  which nothing handles.
\<close>

definition settle_put :: "fetch_run \<Rightarrow> cache_storage \<Rightarrow> cache_storage \<times> error option" where
  "settle_put run cs =
     (case detached_put run of
        None \<Rightarrow> (cs, None)
      | Some (name, req, resp) \<Rightarrow>
          (let opened = caches_open name cs
           in case put_in name req resp opened of
                Inr stored \<Rightarrow> (stored, None)
              | Inl e \<Rightarrow> (opened, Some e)))"

text \<open>
  What the page receives: the browser's own network fetch when the worker did not
  intercept, the settled \<open>respondWith\<close> promise otherwise.
\<close>

definition delivered ::
  "(request \<Rightarrow> error + response) \<Rightarrow> request \<Rightarrow> fetch_run \<Rightarrow> error + response" where
  "delivered net req run =
     (case outcome run of NotIntercepted \<Rightarrow> net req | RespondWith p \<Rightarrow> p)"

subsection \<open>The push listener\<close>

text \<open>
  What the listener reads from the platform: \<open>self.location.origin\<close>, \<open>Date.now()\<close>
  and \<open>self.navigator.userAgent\<close> (\<open>None\<close> when it is not defined).
\<close>

record push_env =
  origin :: jstring
  now :: rat
  user_agent :: "string option"

text \<open>
  The payload of a push event (\<open>event.data\<close>): \<open>json()\<close> gives the parsed value or
  throws, \<open>text()\<close> gives the payload as text.
\<close>

record push_data =
  json_of :: "error + json"
  text_of :: jstring

definition alarm_clock :: jstring where
  "alarm_clock = [0x23F0]"

definition bell :: jstring where
  "bell = [0xD83D, 0xDD14]"

definition default_icon :: jstring where
  \<open>default_icon =
     units ''data:image/svg+xml,<svg xmlns="http://www.w3.org/2000/svg" viewBox="0 0 100 100"><circle cx="50" cy="50" r="40" fill="%233b82f6"/><text x="50" y="65" text-anchor="middle" font-size="30" fill="white">''
     @ alarm_clock @ units ''</text></svg>''\<close>

definition default_badge :: jstring where
  \<open>default_badge =
     units ''data:image/svg+xml,<svg xmlns="http://www.w3.org/2000/svg" viewBox="0 0 100 100"><circle cx="50" cy="50" r="40" fill="%23ef4444"/><text x="50" y="65" text-anchor="middle" font-size="30" fill="white">''
     @ bell @ units ''</text></svg>''\<close>

definition ios_badge :: jstring where
  \<open>ios_badge =
     units ''data:image/svg+xml,<svg xmlns="http://www.w3.org/2000/svg" viewBox="0 0 96 96"><circle cx="48" cy="48" r="40" fill="%23ef4444"/><text x="48" y="65" text-anchor="middle" font-size="24" fill="white">''
     @ bell @ units ''</text></svg>''\<close>

definition open_icon :: jstring where
  \<open>open_icon =
     units ''data:image/svg+xml,<svg xmlns="http://www.w3.org/2000/svg" viewBox="0 0 24 24" fill="white"><path d="M19 13h-6v6h-2v-6H5v-2h6V5h2v6h6v2z"/></svg>''\<close>

definition dismiss_icon :: jstring where
  \<open>dismiss_icon =
     units ''data:image/svg+xml,<svg xmlns="http://www.w3.org/2000/svg" viewBox="0 0 24 24" fill="white"><path d="M19 6.41L17.59 5 12 10.59 6.41 5 5 6.41 10.59 12 5 17.59 6.41 19 12 13.41 17.59 19 19 17.59 13.41 12z"/></svg>''\<close>

definition default_vibrate :: json where
  "default_vibrate = JArr [JNum 200, JNum 100, JNum 200, JNum 100, JNum 200]"

definition ios_vibrate :: json where
  "ios_vibrate = JArr [JNum 200, JNum 100, JNum 200]"

text \<open>The initial value of \<open>notificationData\<close>.\<close>

definition default_notification :: "push_env \<Rightarrow> obj" where
  "default_notification env = fmap_of_list
     [(''title'', JStr (alarm_clock @ units '' Reminder'')),
      (''body'', JStr (units ''You have a scheduled reminder!'')),
      (''icon'', JStr default_icon),
      (''badge'', JStr default_badge),
      (''tag'', JStr (units ''reminder-notification'')),
      (''requireInteraction'', JBool True),
      (''vibrate'', default_vibrate),
      (''data'', JObj (fmap_of_list
         [(''url'', JStr (origin env)),
          (''timestamp'', JNum (now env)),
          (''source'', JStr (units ''pi-reminder-server''))]))]"

text \<open>
  The body of the \<open>try\<close> block:
  \<open>{ ...notificationData, ...pushData, requireInteraction: true, vibrate: [...] }\<close>.
  Later entries of an object literal replace earlier ones of the same name.
\<close>

definition merge_push :: "obj \<Rightarrow> json \<Rightarrow> obj" where
  "merge_push notificationData pushData =
     fmupd ''vibrate'' default_vibrate
       (fmupd ''requireInteraction'' (JBool True)
          (notificationData ++\<^sub>f own_props pushData))"

definition try_merge :: "obj \<Rightarrow> push_data \<Rightarrow> error + obj" where
  "try_merge notificationData d =
     (case json_of d of
        Inl e \<Rightarrow> Inl e
      | Inr pushData \<Rightarrow> Inr (merge_push notificationData pushData))"

text \<open>
  \<open>if (event.data) { try { ... } catch (e) { notificationData.body = event.data.text(); } }\<close>
\<close>

definition apply_payload :: "obj \<Rightarrow> push_data option \<Rightarrow> obj" where
  "apply_payload notificationData event_data =
     (case event_data of
        None \<Rightarrow> notificationData
      | Some d \<Rightarrow>
          (case try_merge notificationData d of
             Inr merged \<Rightarrow> merged
           | Inl e \<Rightarrow> fmupd ''body'' (JStr (text_of d)) notificationData))"

definition isIOS :: "push_env \<Rightarrow> bool" where
  "isIOS env =
     (let userAgent = (case user_agent env of None \<Rightarrow> [] | Some ua \<Rightarrow> ua)
      in str_includes userAgent ''iPad'' \<or> str_includes userAgent ''iPhone''
         \<or> str_includes userAgent ''iPod'')"

definition default_actions :: json where
  "default_actions = JArr
     [JObj (fmap_of_list
        [(''action'', JStr (units ''open'')),
         (''title'', JStr ([0xD83D, 0xDCF1] @ units '' Open App'')),
         (''icon'', JStr open_icon)]),
      JObj (fmap_of_list
        [(''action'', JStr (units ''dismiss'')),
         (''title'', JStr ([0x2715] @ units '' Dismiss'')),
         (''icon'', JStr dismiss_icon)])]"

text \<open>The platform pass: the two branches of \<open>if (isIOS) { ... } else { ... }\<close>.\<close>

definition adapt_platform :: "bool \<Rightarrow> obj \<Rightarrow> obj" where
  "adapt_platform ios notificationData =
     (if ios
      then fmupd ''badge'' (JStr ios_badge)
             (fmupd ''requireInteraction'' (JBool True)
                (fmupd ''vibrate'' ios_vibrate
                   (fmdrop ''actions'' notificationData)))
      else fmupd ''actions'' default_actions notificationData)"

text \<open>The value of \<open>notificationData\<close> when the notification is shown.\<close>

definition push_notification :: "push_env \<Rightarrow> push_data option \<Rightarrow> obj" where
  "push_notification env event_data =
     adapt_platform (isIOS env) (apply_payload (default_notification env) event_data)"

text \<open>
  The arguments of \<open>self.registration.showNotification(notificationData.title, notificationData)\<close>.
\<close>

definition show_notification_args :: "push_env \<Rightarrow> push_data option \<Rightarrow> json option \<times> obj" where
  "show_notification_args env event_data =
     (let notificationData = push_notification env event_data
      in (fmlookup notificationData ''title'', notificationData))"

subsection \<open>The message listener\<close>

text \<open>
  A message event carries the data the client posted (\<open>None\<close> for \<open>undefined\<close>) and
  the ports transferred with it, here by their identifiers.
\<close>

record message_event =
  msg_data :: "json option"
  ports :: "nat list"

datatype branch = SkipWaiting | GetVersion | SyncReminders

text \<open>\<open>event.data && event.data.type === t\<close>\<close>

definition type_is :: "message_event \<Rightarrow> string \<Rightarrow> bool" where
  "type_is ev t =
     (truthy (msg_data ev) \<and>
      (case msg_data ev of None \<Rightarrow> False | Some v \<Rightarrow> get_prop v ''type'' = Some (JStr (units t))))"

definition version_reply :: obj where
  "version_reply = fmap_of_list
     [(''version'', JStr (units CACHE_NAME)), (''type'', JStr (units ''simple-reminders''))]"

text \<open>
  A run of the listener: the branches entered, in order, the messages posted (port and
  message), and the exception that ended the listener, if any.
\<close>

record message_run =
  entered :: "branch list"
  posted :: "(nat \<times> obj) list"
  thrown :: "error option"

text \<open>
  The three \<open>if\<close> statements, one after the other.
  \<open>event.ports[0].postMessage\<close> throws when the message came without a port, and
  the third \<open>if\<close> is then not reached.
\<close>

definition message_listener :: "message_event \<Rightarrow> message_run" where
  "message_listener ev =
     (let b1 = (if type_is ev ''SKIP_WAITING'' then [SkipWaiting] else []);
          b3 = (if type_is ev ''SYNC_REMINDERS'' then [SyncReminders] else [])
      in if type_is ev ''GET_VERSION''
         then (case ports ev of
                 [] \<Rightarrow> \<lparr>entered = b1 @ [GetVersion], posted = [], thrown = Some TypeError\<rparr>
               | p # _ \<Rightarrow>
                   \<lparr>entered = b1 @ [GetVersion] @ b3, posted = [(p, version_reply)],
                    thrown = None\<rparr>)
         else \<lparr>entered = b1 @ b3, posted = [], thrown = None\<rparr>)"

subsection \<open>Example inputs\<close>

definition pi_request :: request where
  "pi_request =
     \<lparr>req_method = ''GET'',
      url = \<lparr>protocol = ''https:'', username = [], password = [],
             hostname = ''raspberrypi.local'', port = ''3001'', pathname = ''/reminders'',
             search = [], hash = []\<rparr>,
      req_headers = []\<rparr>"

definition app_request :: request where
  "app_request =
     \<lparr>req_method = ''GET'',
      url = \<lparr>protocol = ''https:'', username = [], password = [],
             hostname = ''kveer007.github.io'', port = [], pathname = ''/notify/app.js'',
             search = [], hash = []\<rparr>,
      req_headers = []\<rparr>"


definition ok_response :: response where
  "ok_response = \<lparr>status = 200, headers = [], vary = [], content = Raw ''ok''\<rparr>"

definition missing_response :: response where
  "missing_response = \<lparr>status = 404, headers = [], vary = [], content = Raw ''not found''\<rparr>"

definition public_request :: request where
  "public_request =
     \<lparr>req_method = ''GET'',
      url = \<lparr>protocol = ''https:'', username = [], password = [],
             hostname = ''www.192.168.example.com'', port = [], pathname = ''/'',
             search = [], hash = []\<rparr>,
      req_headers = []\<rparr>"

definition desktop_env :: push_env where
  "desktop_env = \<lparr>origin = units ''https://kveer007.github.io'', now = 1700000000000,
     user_agent = Some ''Mozilla/5.0 (X11; Linux x86_64)''\<rparr>"

definition iphone_env :: push_env where
  "iphone_env = \<lparr>origin = units ''https://kveer007.github.io'', now = 1700000000000,
     user_agent = Some ''Mozilla/5.0 (iPhone; CPU iPhone OS 17_0 like Mac OS X)''\<rparr>"

definition pills_push :: push_data where
  "pills_push =
     \<lparr>json_of = Inr (JObj (fmap_of_list
        [(''title'', JStr (units ''Take pills'')), (''body'', JStr (units ''8am dose'')),
         (''requireInteraction'', JBool False)])),
      text_of = units ''{\"title\":\"Take pills\",\"body\":\"8am dose\",\"requireInteraction\":false}''\<rparr>"

definition call_mom_push :: push_data where
  "call_mom_push = \<lparr>json_of = Inl SyntaxError, text_of = units ''Call mom''\<rparr>"

definition tagged_push :: push_data where
  "tagged_push =
     \<lparr>json_of = Inr (JObj (fmap_of_list [(''tag'', JStr (units ''chat''))])),
      text_of = units ''{\"tag\":\"chat\"}''\<rparr>"

definition snooze_actions :: json where
  "snooze_actions = JArr [JObj (fmap_of_list
     [(''action'', JStr (units ''snooze'')), (''title'', JStr (units ''Snooze''))])]"

definition snooze_push :: push_data where
  "snooze_push =
     \<lparr>json_of = Inr (JObj (fmap_of_list [(''actions'', snooze_actions)])),
      text_of = units ''{\"actions\":[{\"action\":\"snooze\",\"title\":\"Snooze\"}]}''\<rparr>"

definition stale_worker :: worker where
  "stale_worker = \<lparr>caches = [(''simple-reminders-v0'', [])], calls = [], controlling = False\<rparr>"

definition upgraded_worker :: worker where
  "upgraded_worker =
     \<lparr>caches = [(''simple-reminders-v0'', [(app_request, missing_response)]),
                (''simple-reminders-v1'', [(app_request, ok_response)]),
                (''other-cache'', [])],
      calls = [], controlling = False\<rparr>"

section \<open>Properties\<close>

subsection \<open>Auxiliary facts\<close>

lemma unit_inj: "inj (\<lambda>c. (of_nat (of_char c) :: 16 word))"
proof (rule injI)
  fix c d :: char
  assume eq: "(of_nat (of_char c) :: 16 word) = of_nat (of_char d)"
  have small: "(of_char x :: nat) < 2 ^ 16" for x :: char
    by (rule less_trans [OF nat_of_char_less_256]) simp
  from eq have "unat (of_nat (of_char c) :: 16 word) = unat (of_nat (of_char d) :: 16 word)"
    by simp
  then have "(of_char c :: nat) = of_char d"
    using small [of c] small [of d] by (simp add: unat_of_nat take_bit_nat_eq_self)
  then show "c = d" by simp
qed

lemma units_eq_iff: "units s = units t \<longleftrightarrow> s = t"
  unfolding units_def by (rule inj_map_eq_map [OF unit_inj])

lemma str_includes_iff: "str_includes s sub \<longleftrightarrow> (\<exists>p q. s = p @ sub @ q)"
proof (induction s)
  case Nil
  then show ?case by auto
next
  case (Cons c cs)
  show ?case
  proof
    assume "str_includes (c # cs) sub"
    then consider "prefix sub (c # cs)" | "str_includes cs sub" by auto
    then show "\<exists>p q. c # cs = p @ sub @ q"
    proof cases
      case 1
      then obtain q where "c # cs = sub @ q" by (auto simp: prefix_def)
      then have "c # cs = [] @ sub @ q" by simp
      then show ?thesis by blast
    next
      case 2
      with Cons.IH obtain p q where "cs = p @ sub @ q" by blast
      then have "c # cs = (c # p) @ sub @ q" by simp
      then show ?thesis by blast
    qed
  next
    assume "\<exists>p q. c # cs = p @ sub @ q"
    then obtain p q where pq: "c # cs = p @ sub @ q" by blast
    show "str_includes (c # cs) sub"
    proof (cases p)
      case Nil
      with pq have "prefix sub (c # cs)" by (simp add: prefix_def)
      then show ?thesis by simp
    next
      case (Cons a p')
      with pq have "cs = p' @ sub @ q" by simp
      with Cons.IH have "str_includes cs sub" by blast
      then show ?thesis by simp
    qed
  qed
qed

lemma fetch_listener_bypass:
  "bypass (url req) \<Longrightarrow>
   fetch_listener net cs req = \<lparr>outcome = NotIntercepted, fetch_calls = [], detached_put = None\<rparr>"
  by (simp add: fetch_listener_def)

lemma settle_put_none: "detached_put run = None \<Longrightarrow> settle_put run cs = (cs, None)"
  by (simp add: settle_put_def)













lemma app_not_bypass: "\<not> bypass (url app_request)"
  by (simp add: app_request_def bypass_def)

lemma type_is_unique: "type_is ev s \<Longrightarrow> type_is ev t \<Longrightarrow> s = t"
  by (auto simp: type_is_def units_eq_iff split: option.splits)

lemma desktop_not_ios: "\<not> isIOS desktop_env"
  by (simp add: isIOS_def desktop_env_def)

lemma iphone_is_ios: "isIOS iphone_env"
  by (simp add: isIOS_def iphone_env_def)

lemma apply_payload_parsed:
  "json_of d = Inr pushData \<Longrightarrow>
   apply_payload nd (Some d) = merge_push nd pushData"
  by (simp add: apply_payload_def try_merge_def)

lemma apply_payload_unparsed:
  "json_of d = Inl e \<Longrightarrow>
   apply_payload nd (Some d) = fmupd ''body'' (JStr (text_of d)) nd"
  by (simp add: apply_payload_def try_merge_def)

lemma lookup_merge_push:
  "fmlookup (merge_push nd pushData) k =
     (if k = ''vibrate'' then Some default_vibrate
      else if k = ''requireInteraction'' then Some (JBool True)
      else (case fmlookup (own_props pushData) k of
              Some v \<Rightarrow> Some v
            | None \<Rightarrow> fmlookup nd k))"
  by (auto simp: merge_push_def fmlookup_dom_iff split: option.splits)

lemma lookup_adapt_other:
  "k \<noteq> ''actions'' \<Longrightarrow> k \<noteq> ''badge'' \<Longrightarrow> k \<noteq> ''vibrate'' \<Longrightarrow> k \<noteq> ''requireInteraction'' \<Longrightarrow>
   fmlookup (adapt_platform ios nd) k = fmlookup nd k"
  by (simp add: adapt_platform_def)

lemma lookup_default_tag:
  "fmlookup (default_notification env) ''tag'' = Some (JStr (units ''reminder-notification''))"
  by (simp add: default_notification_def fmlookup_of_list)

lemma lookup_default_require:
  "fmlookup (default_notification env) ''requireInteraction'' = Some (JBool True)"
  by (simp add: default_notification_def fmlookup_of_list)

lemma lookup_default_actions:
  "fmlookup (default_notification env) ''actions'' = None"
  by (simp add: default_notification_def fmlookup_of_list)

lemma caches_delete_old:
  "caches (delete_old names w) =
     filter (\<lambda>entry. fst entry = CACHE_NAME \<or> fst entry \<notin> set names) (caches w)"
proof (induction names arbitrary: w)
  case Nil
  then show ?case by simp
next
  case (Cons n names)
  show ?case
  proof (cases "n = CACHE_NAME")
    case True
    then show ?thesis using Cons.IH [of w] by (auto intro: filter_cong)
  next
    case False
    then show ?thesis
      using Cons.IH [of "w\<lparr>caches := caches_delete n (caches w),
                           calls := calls w @ [CachesDelete n]\<rparr>"]
      by (auto simp: caches_delete_def intro: filter_cong)
  qed
qed

lemma calls_delete_old:
  "calls (delete_old names w) =
     calls w @ map CachesDelete (filter (\<lambda>n. n \<noteq> CACHE_NAME) names)"
  by (induction names arbitrary: w) auto

lemma controlling_delete_old: "controlling (delete_old names w) = controlling w"
  by (induction names arbitrary: w) auto

lemma caches_activate:
  "caches (activate w) = filter (\<lambda>entry. fst entry = CACHE_NAME) (caches w)"
proof -
  have "caches (activate w) =
      filter (\<lambda>entry. fst entry = CACHE_NAME \<or> fst entry \<notin> set (caches_keys (caches w)))
        (caches w)"
    by (simp add: activate_def Let_def clients_claim_def caches_delete_old)
  also have "\<dots> = filter (\<lambda>entry. fst entry = CACHE_NAME) (caches w)"
    by (rule filter_cong) (auto simp: caches_keys_def)
  finally show ?thesis .
qed

lemma calls_activate:
  "calls (activate w) =
     calls w @ CachesKeys #
       map CachesDelete (filter (\<lambda>n. n \<noteq> CACHE_NAME) (caches_keys (caches w)))
       @ [ClientsClaim]"
  by (simp add: activate_def Let_def clients_claim_def calls_delete_old)

lemma filter_eq_single:
  "distinct xs \<Longrightarrow> x \<in> set xs \<Longrightarrow> filter (\<lambda>n. n = x) xs = [x]"
proof (induction xs)
  case Nil
  then show ?case by simp
next
  case (Cons a xs)
  show ?case
  proof (cases "a = x")
    case True
    with Cons.prems have "x \<notin> set xs" by simp
    then have "filter (\<lambda>n. n = x) xs = []" by (auto simp: filter_empty_conv)
    with True show ?thesis by simp
  next
    case False
    with Cons show ?thesis by simp
  qed
qed

lemma map_of_filter_key:
  "map_of (filter (\<lambda>entry. fst entry = k) cs) k = map_of cs k"
  by (induction cs) auto

subsection \<open>The fetch listener\<close>




text \<open>
  C2. A request whose hostname contains \<open>192.168.\<close> or whose port is \<open>3001\<close> is not
  intercepted: the listener makes no cache lookup and no network call of its own and
  starts no cache write, the cache storage stays as it was, and what the page
  receives is what the network gives for the request.
\<close>

theorem bypass_goes_to_network:
  assumes "str_includes (hostname (url req)) ''192.168.'' \<or> port (url req) = ''3001''"
  shows "outcome (fetch_listener net cs req) = NotIntercepted
         \<and> fetch_calls (fetch_listener net cs req) = []
         \<and> detached_put (fetch_listener net cs req) = None
         \<and> settle_put (fetch_listener net cs req) cs = (cs, None)
         \<and> delivered net req (fetch_listener net cs req) = net req"
proof -
  from assms have "bypass (url req)" by (simp add: bypass_def)
  then have "fetch_listener net cs req =
      \<lparr>outcome = NotIntercepted, fetch_calls = [], detached_put = None\<rparr>"
    by (rule fetch_listener_bypass)
  then show ?thesis by (simp add: settle_put_def delivered_def)
qed

theorem bypass_goes_to_network_witness:
  "port (url pi_request) = ''3001''
   \<and> caches_match [(CACHE_NAME, [(pi_request, missing_response)])] pi_request
       = Some missing_response
   \<and> outcome (fetch_listener (\<lambda>r. Inr ok_response)
        [(CACHE_NAME, [(pi_request, missing_response)])] pi_request)
       = NotIntercepted
   \<and> delivered (\<lambda>r. Inr ok_response) pi_request
       (fetch_listener (\<lambda>r. Inr ok_response)
          [(CACHE_NAME, [(pi_request, missing_response)])] pi_request)
       = Inr ok_response"
proof -
  have p: "port (url pi_request) = ''3001''" by (simp add: pi_request_def)
  have hit: "caches_match [(CACHE_NAME, [(pi_request, missing_response)])] pi_request
       = Some missing_response"
    by (simp add: cache_match_def matches_def same_resource_def vary_agrees_def
          pi_request_def missing_response_def)
  from p have h: "str_includes (hostname (url pi_request)) ''192.168.''
                  \<or> port (url pi_request) = ''3001''" by (rule disjI2)
  note t = bypass_goes_to_network [OF h, of "\<lambda>r. Inr ok_response"
      "[(CACHE_NAME, [(pi_request, missing_response)])]"]
  from p hit t [THEN conjunct1]
    t [THEN conjunct2, THEN conjunct2, THEN conjunct2, THEN conjunct2]
  show ?thesis by (intro conjI)
qed

text \<open>
  C3. When a request that is not bypassed misses the cache and its network fetch
  fails, the answer is the synthesized response: status 408, content type
  \<open>application/json\<close>, and as body the JSON text of an object with an \<open>error\<close> and a
  \<open>message\<close> member. Nothing is written to the cache. For no request at all does the
  promise handed to \<open>respondWith\<close> reject.
\<close>

theorem network_failure_gives_408:
  assumes "\<not> bypass (url req)" and "caches_match cs req = None" and "net req = Inl e"
  shows "outcome (fetch_listener net cs req) = RespondWith (Inr offline_response)
         \<and> fetch_calls (fetch_listener net cs req) = [CachesMatch req, NetFetch req]
         \<and> detached_put (fetch_listener net cs req) = None
         \<and> delivered net req (fetch_listener net cs req) = Inr offline_response
         \<and> status offline_response = 408
         \<and> map_of (headers offline_response) ''Content-Type'' = Some ''application/json''
         \<and> (\<exists>m. content offline_response = Stringified (JObj m)
                 \<and> fmlookup m ''error'' = Some (JStr (units ''Network error''))
                 \<and> fmlookup m ''message''
                     = Some (JStr (units ''Please check your connection and try again'')))
         \<and> (\<forall>net' cs' req' e'. outcome (fetch_listener net' cs' req') \<noteq> RespondWith (Inl e'))"
proof -
  from assms have run: "fetch_listener net cs req =
      \<lparr>outcome = RespondWith (Inr offline_response),
       fetch_calls = [CachesMatch req, NetFetch req], detached_put = None\<rparr>"
    by (simp add: fetch_listener_def cache_first_def catch_offline_def)
  have never: "outcome (fetch_listener net' cs' req') \<noteq> RespondWith (Inl e')" for net' cs' req' e'
    by (simp add: fetch_listener_def cache_first_def catch_offline_def
             split: option.splits sum.splits)
  have body: "\<exists>m. content offline_response = Stringified (JObj m)
                 \<and> fmlookup m ''error'' = Some (JStr (units ''Network error''))
                 \<and> fmlookup m ''message''
                     = Some (JStr (units ''Please check your connection and try again''))"
    by (simp add: offline_response_def fmlookup_of_list)
  have st: "status offline_response = 408" by (simp add: offline_response_def)
  have hd: "map_of (headers offline_response) ''Content-Type'' = Some ''application/json''"
    by (simp add: offline_response_def)
  from run never body st hd show ?thesis by (simp add: delivered_def)
qed

theorem network_failure_gives_408_witness:
  "\<not> bypass (url app_request) \<and> caches_match [] app_request = None
   \<and> outcome (fetch_listener (\<lambda>r. Inl NetworkError) [] app_request) = RespondWith (Inr offline_response)
   \<and> status offline_response = 408"
proof -
  have miss: "caches_match [] app_request = None" by simp
  note t = network_failure_gives_408 [OF app_not_bypass miss,
      of "\<lambda>r. Inl NetworkError" NetworkError, OF refl]
  from app_not_bypass miss t [THEN conjunct1]
    t [THEN conjunct2, THEN conjunct2, THEN conjunct2, THEN conjunct2, THEN conjunct1]
  show ?thesis by (intro conjI)
qed

text \<open>
  C9. The hostname test is containment: whenever \<open>192.168.\<close> occurs anywhere in the
  hostname, whatever comes before and after it, the request is classified as
  bypassed, the listener makes no cache lookup, starts no cache write and leaves the
  storage as it was. The public name \<open>www.192.168.example.com\<close> is such a hostname.
\<close>

theorem substring_host_bypasses:
  assumes "hostname (url req) = p @ ''192.168.'' @ q"
  shows "bypass (url req)
         \<and> fetch_listener net cs req =
             \<lparr>outcome = NotIntercepted, fetch_calls = [], detached_put = None\<rparr>
         \<and> settle_put (fetch_listener net cs req) cs = (cs, None)"
proof -
  from assms have "str_includes (hostname (url req)) ''192.168.''"
    unfolding str_includes_iff by blast
  then have b: "bypass (url req)" by (simp add: bypass_def)
  then have "fetch_listener net cs req =
      \<lparr>outcome = NotIntercepted, fetch_calls = [], detached_put = None\<rparr>"
    by (rule fetch_listener_bypass)
  with b show ?thesis by (simp add: settle_put_def)
qed

theorem substring_host_bypasses_witness:
  "hostname (url public_request) = ''www.'' @ ''192.168.'' @ ''example.com''
   \<and> caches_match [(CACHE_NAME, [(public_request, ok_response)])] public_request
       = Some ok_response
   \<and> bypass (url public_request)
   \<and> fetch_listener (\<lambda>r. Inr ok_response) [(CACHE_NAME, [(public_request, ok_response)])] public_request
       = \<lparr>outcome = NotIntercepted, fetch_calls = [], detached_put = None\<rparr>"
proof -
  have h: "hostname (url public_request) = ''www.'' @ ''192.168.'' @ ''example.com''"
    by (simp add: public_request_def)
  have hit: "caches_match [(CACHE_NAME, [(public_request, ok_response)])] public_request
       = Some ok_response"
    by (simp add: cache_match_def matches_def same_resource_def vary_agrees_def
          public_request_def ok_response_def)
  note t = substring_host_bypasses [OF h, of "\<lambda>r. Inr ok_response"
        "[(CACHE_NAME, [(public_request, ok_response)])]"]
  from h hit t [THEN conjunct1] t [THEN conjunct2, THEN conjunct1]
  show ?thesis by (intro conjI)
qed

subsection \<open>The activate listener\<close>

text \<open>
  C8, as the claim states it, fails: when the current name is not among the existing
  cache names, activation deletes them all and no generation is left, not one.
\<close>

theorem activate_may_leave_none_counterexample:
  "caches_keys (caches stale_worker) = [''simple-reminders-v0'']
   \<and> caches_keys (caches (activate stale_worker)) = []
   \<and> length (caches_keys (caches (activate stale_worker))) \<noteq> 1"
  by (simp add: stale_worker_def activate_def clients_claim_def caches_keys_def
        caches_delete_def CACHE_NAME_def)

text \<open>
  C8 (amended). Activation deletes every cache whose name is not the current one and
  keeps the current cache with its content. The names left are the current name only:
  exactly one generation when the current name was among the existing names, none
  when it was not. The calls are made in this order: the enumeration of the names, one
  deletion for each other name in the order of the names, and last, after all of them,
  the claim of the clients.
\<close>

theorem activate_keeps_only_current:
  "caches_keys (caches (activate w))
     = filter (\<lambda>n. n = CACHE_NAME) (caches_keys (caches w))
   \<and> (distinct (caches_keys (caches w)) \<and> CACHE_NAME \<in> set (caches_keys (caches w)) \<longrightarrow>
        caches_keys (caches (activate w)) = [CACHE_NAME])
   \<and> (CACHE_NAME \<notin> set (caches_keys (caches w)) \<longrightarrow> caches (activate w) = [])
   \<and> cache_named (caches (activate w)) CACHE_NAME = cache_named (caches w) CACHE_NAME
   \<and> calls (activate w) =
       calls w @ CachesKeys #
         map CachesDelete (filter (\<lambda>n. n \<noteq> CACHE_NAME) (caches_keys (caches w)))
         @ [ClientsClaim]
   \<and> controlling (activate w)"
proof -
  have keys: "caches_keys (caches (activate w))
     = filter (\<lambda>n. n = CACHE_NAME) (caches_keys (caches w))"
    by (simp add: caches_activate caches_keys_def filter_map comp_def)
  have one: "caches_keys (caches (activate w)) = [CACHE_NAME]"
    if "distinct (caches_keys (caches w)) \<and> CACHE_NAME \<in> set (caches_keys (caches w))"
    using that by (simp add: keys filter_eq_single)
  have none: "caches (activate w) = []" if "CACHE_NAME \<notin> set (caches_keys (caches w))"
    using that by (force simp: caches_activate caches_keys_def filter_empty_conv)
  have kept: "cache_named (caches (activate w)) CACHE_NAME = cache_named (caches w) CACHE_NAME"
    by (simp add: cache_named_def caches_activate map_of_filter_key)
  have ctl: "controlling (activate w)"
    by (simp add: activate_def Let_def clients_claim_def)
  from keys one none kept ctl calls_activate [of w] show ?thesis by blast
qed

theorem activate_keeps_only_current_witness:
  "distinct (caches_keys (caches upgraded_worker))
   \<and> CACHE_NAME \<in> set (caches_keys (caches upgraded_worker))
   \<and> caches_keys (caches (activate upgraded_worker)) = [CACHE_NAME]
   \<and> calls (activate upgraded_worker)
       = [CachesKeys, CachesDelete ''simple-reminders-v0'', CachesDelete ''other-cache'',
          ClientsClaim]
   \<and> caches (activate stale_worker) = []"
proof -
  have h: "distinct (caches_keys (caches upgraded_worker))
           \<and> CACHE_NAME \<in> set (caches_keys (caches upgraded_worker))"
    by (simp add: upgraded_worker_def caches_keys_def CACHE_NAME_def)
  have s: "CACHE_NAME \<notin> set (caches_keys (caches stale_worker))"
    by (simp add: stale_worker_def caches_keys_def CACHE_NAME_def)
  have k: "filter (\<lambda>n. n \<noteq> CACHE_NAME) (caches_keys (caches upgraded_worker))
             = [''simple-reminders-v0'', ''other-cache'']"
    by (simp add: upgraded_worker_def caches_keys_def CACHE_NAME_def)
  have c: "calls upgraded_worker = []" by (simp add: upgraded_worker_def)
  note u = activate_keeps_only_current [of upgraded_worker]
  from u h have 1: "caches_keys (caches (activate upgraded_worker)) = [CACHE_NAME]"
    by blast
  from u have "calls (activate upgraded_worker) =
       calls upgraded_worker @ CachesKeys #
         map CachesDelete
           (filter (\<lambda>n. n \<noteq> CACHE_NAME) (caches_keys (caches upgraded_worker)))
         @ [ClientsClaim]"
    by blast
  then have 2: "calls (activate upgraded_worker)
       = [CachesKeys, CachesDelete ''simple-reminders-v0'', CachesDelete ''other-cache'',
          ClientsClaim]"
    by (simp add: k c)
  from s activate_keeps_only_current [of stale_worker]
  have 3: "caches (activate stale_worker) = []" by blast
  from h 1 2 3 show ?thesis by blast
qed

subsection \<open>The push listener\<close>

text \<open>
  C4. When the payload parses, the descriptor that the payload step yields has
  \<open>requireInteraction\<close> true and the default vibration pattern whatever the payload
  says, and for every other property name the payload's value when the payload has
  that property, the default's otherwise. In the notification that is shown
  \<open>requireInteraction\<close> is still true, and every property the payload supplies
  still has the payload's value, those the platform pass sets (\<open>actions\<close>,
  \<open>badge\<close>, \<open>vibrate\<close>) apart.
\<close>

theorem server_fields_take_precedence:
  assumes "json_of d = Inr pushData"
  shows "fmlookup (apply_payload (default_notification env) (Some d)) ''requireInteraction''
           = Some (JBool True)
         \<and> fmlookup (apply_payload (default_notification env) (Some d)) ''vibrate''
           = Some default_vibrate
         \<and> (\<forall>k v. k \<noteq> ''requireInteraction'' \<and> k \<noteq> ''vibrate''
                  \<and> fmlookup (own_props pushData) k = Some v \<longrightarrow>
               fmlookup (apply_payload (default_notification env) (Some d)) k = Some v)
         \<and> (\<forall>k. k \<noteq> ''requireInteraction'' \<and> k \<noteq> ''vibrate''
                  \<and> fmlookup (own_props pushData) k = None \<longrightarrow>
               fmlookup (apply_payload (default_notification env) (Some d)) k
                 = fmlookup (default_notification env) k)
         \<and> fmlookup (push_notification env (Some d)) ''requireInteraction'' = Some (JBool True)
         \<and> (\<forall>k v. k \<noteq> ''requireInteraction'' \<and> k \<noteq> ''vibrate'' \<and> k \<noteq> ''actions''
                  \<and> k \<noteq> ''badge'' \<and> fmlookup (own_props pushData) k = Some v \<longrightarrow>
               fmlookup (push_notification env (Some d)) k = Some v)"
proof -
  have ap: "apply_payload (default_notification env) (Some d)
              = merge_push (default_notification env) pushData"
    using assms by (rule apply_payload_parsed)
  have req: "fmlookup (push_notification env (Some d)) ''requireInteraction'' = Some (JBool True)"
    by (simp add: push_notification_def adapt_platform_def ap lookup_merge_push)
  have shown: "fmlookup (push_notification env (Some d)) k = Some v"
    if "k \<noteq> ''requireInteraction'' \<and> k \<noteq> ''vibrate'' \<and> k \<noteq> ''actions''
        \<and> k \<noteq> ''badge'' \<and> fmlookup (own_props pushData) k = Some v" for k v
    using that by (simp add: push_notification_def lookup_adapt_other ap lookup_merge_push)
  have step: "fmlookup (apply_payload (default_notification env) (Some d)) ''requireInteraction''
           = Some (JBool True)
         \<and> fmlookup (apply_payload (default_notification env) (Some d)) ''vibrate''
           = Some default_vibrate
         \<and> (\<forall>k v. k \<noteq> ''requireInteraction'' \<and> k \<noteq> ''vibrate''
                  \<and> fmlookup (own_props pushData) k = Some v \<longrightarrow>
               fmlookup (apply_payload (default_notification env) (Some d)) k = Some v)
         \<and> (\<forall>k. k \<noteq> ''requireInteraction'' \<and> k \<noteq> ''vibrate''
                  \<and> fmlookup (own_props pushData) k = None \<longrightarrow>
               fmlookup (apply_payload (default_notification env) (Some d)) k
                 = fmlookup (default_notification env) k)"
    by (simp add: ap lookup_merge_push)
  from step req shown show ?thesis by blast
qed

theorem server_fields_take_precedence_witness:
  "json_of pills_push = Inr (JObj (fmap_of_list
        [(''title'', JStr (units ''Take pills'')), (''body'', JStr (units ''8am dose'')),
         (''requireInteraction'', JBool False)]))
   \<and> fmlookup (apply_payload (default_notification desktop_env) (Some pills_push)) ''title''
       = Some (JStr (units ''Take pills''))
   \<and> fmlookup (apply_payload (default_notification desktop_env) (Some pills_push)) ''body''
       = Some (JStr (units ''8am dose''))
   \<and> fmlookup (apply_payload (default_notification desktop_env) (Some pills_push)) ''tag''
       = Some (JStr (units ''reminder-notification''))
   \<and> fmlookup (apply_payload (default_notification desktop_env) (Some pills_push))
        ''requireInteraction'' = Some (JBool True)"
proof -
  have h: "json_of pills_push = Inr (JObj (fmap_of_list
        [(''title'', JStr (units ''Take pills'')), (''body'', JStr (units ''8am dose'')),
         (''requireInteraction'', JBool False)]))"
    by (simp add: pills_push_def)
  note t = server_fields_take_precedence [OF h, of desktop_env]
  note required = t [THEN conjunct1]
  note supplied = t [THEN conjunct2, THEN conjunct2, THEN conjunct1]
  note defaulted = t [THEN conjunct2, THEN conjunct2, THEN conjunct2, THEN conjunct1]
  from supplied [THEN spec, THEN spec, of "''title''" "JStr (units ''Take pills'')"]
  have title: "fmlookup (apply_payload (default_notification desktop_env) (Some pills_push))
      ''title'' = Some (JStr (units ''Take pills''))"
    by (simp add: fmlookup_of_list)
  from supplied [THEN spec, THEN spec, of "''body''" "JStr (units ''8am dose'')"]
  have body: "fmlookup (apply_payload (default_notification desktop_env) (Some pills_push))
      ''body'' = Some (JStr (units ''8am dose''))"
    by (simp add: fmlookup_of_list)
  from defaulted [THEN spec, of "''tag''"]
  have tag: "fmlookup (apply_payload (default_notification desktop_env) (Some pills_push))
      ''tag'' = Some (JStr (units ''reminder-notification''))"
    by (simp add: fmlookup_of_list lookup_default_tag)
  from h title body tag required show ?thesis by (intro conjI)
qed

text \<open>
  C5, as the claim states it, fails: a payload with a \<open>tag\<close> property of its own
  sets the tag of the notification shown.
\<close>

theorem tag_can_be_overridden_counterexample:
  "fmlookup (snd (show_notification_args desktop_env (Some tagged_push))) ''tag''
     = Some (JStr (units ''chat''))
   \<and> fmlookup (snd (show_notification_args desktop_env (Some tagged_push))) ''tag''
     \<noteq> Some (JStr (units ''reminder-notification''))"
  by (simp add: show_notification_args_def push_notification_def lookup_adapt_other
        tagged_push_def apply_payload_parsed lookup_merge_push fmlookup_of_list
        units_eq_iff)

text \<open>
  C5 (amended). The notification handed to \<open>showNotification\<close> has the tag
  \<open>reminder-notification\<close> when there is no payload, when the payload does not
  parse, and when the parsed payload has no \<open>tag\<close> property; when it has one, the
  tag is the payload's.
\<close>

theorem tag_is_constant_unless_supplied:
  "(event_data = None \<longrightarrow>
      fmlookup (snd (show_notification_args env event_data)) ''tag''
        = Some (JStr (units ''reminder-notification'')))
   \<and> (\<forall>d e. event_data = Some d \<and> json_of d = Inl e \<longrightarrow>
        fmlookup (snd (show_notification_args env event_data)) ''tag''
          = Some (JStr (units ''reminder-notification'')))
   \<and> (\<forall>d pushData. event_data = Some d \<and> json_of d = Inr pushData
          \<and> fmlookup (own_props pushData) ''tag'' = None \<longrightarrow>
        fmlookup (snd (show_notification_args env event_data)) ''tag''
          = Some (JStr (units ''reminder-notification'')))
   \<and> (\<forall>d pushData v. event_data = Some d \<and> json_of d = Inr pushData
          \<and> fmlookup (own_props pushData) ''tag'' = Some v \<longrightarrow>
        fmlookup (snd (show_notification_args env event_data)) ''tag'' = Some v)"
proof -
  have final: "fmlookup (snd (show_notification_args env event_data)) ''tag''
      = fmlookup (apply_payload (default_notification env) event_data) ''tag''"
    by (simp add: show_notification_args_def push_notification_def lookup_adapt_other)
  have a: "event_data = None \<Longrightarrow>
      fmlookup (apply_payload (default_notification env) event_data) ''tag''
        = Some (JStr (units ''reminder-notification''))"
    by (simp add: apply_payload_def lookup_default_tag)
  have b: "event_data = Some d \<and> json_of d = Inl e \<Longrightarrow>
      fmlookup (apply_payload (default_notification env) event_data) ''tag''
        = Some (JStr (units ''reminder-notification''))" for d e
    by (auto simp: apply_payload_unparsed lookup_default_tag)
  have c: "event_data = Some d \<and> json_of d = Inr pushData
          \<and> fmlookup (own_props pushData) ''tag'' = None \<Longrightarrow>
      fmlookup (apply_payload (default_notification env) event_data) ''tag''
        = Some (JStr (units ''reminder-notification''))" for d pushData
    by (auto simp: apply_payload_parsed lookup_merge_push lookup_default_tag)
  have d: "event_data = Some d \<and> json_of d = Inr pushData
          \<and> fmlookup (own_props pushData) ''tag'' = Some v \<Longrightarrow>
      fmlookup (apply_payload (default_notification env) event_data) ''tag'' = Some v"
    for d pushData v
    by (auto simp: apply_payload_parsed lookup_merge_push)
  from a b c d show ?thesis unfolding final by blast
qed

theorem tag_is_constant_unless_supplied_witness:
  "fmlookup (snd (show_notification_args iphone_env None)) ''tag''
     = Some (JStr (units ''reminder-notification''))
   \<and> fmlookup (snd (show_notification_args iphone_env (Some call_mom_push))) ''tag''
     = Some (JStr (units ''reminder-notification''))
   \<and> fmlookup (snd (show_notification_args iphone_env (Some pills_push))) ''tag''
     = Some (JStr (units ''reminder-notification''))
   \<and> fmlookup (snd (show_notification_args iphone_env (Some tagged_push))) ''tag''
     = Some (JStr (units ''chat''))"
proof -
  have 1: "fmlookup (snd (show_notification_args iphone_env None)) ''tag''
     = Some (JStr (units ''reminder-notification''))"
    using tag_is_constant_unless_supplied [of None iphone_env] by simp
  have 2: "fmlookup (snd (show_notification_args iphone_env (Some call_mom_push))) ''tag''
     = Some (JStr (units ''reminder-notification''))"
    using tag_is_constant_unless_supplied [of "Some call_mom_push" iphone_env]
    by (simp add: call_mom_push_def)
  have 3: "fmlookup (snd (show_notification_args iphone_env (Some pills_push))) ''tag''
     = Some (JStr (units ''reminder-notification''))"
    using tag_is_constant_unless_supplied [of "Some pills_push" iphone_env]
    by (simp add: pills_push_def fmlookup_of_list)
  have 4: "fmlookup (snd (show_notification_args iphone_env (Some tagged_push))) ''tag''
     = Some (JStr (units ''chat''))"
    using tag_is_constant_unless_supplied [of "Some tagged_push" iphone_env]
    by (simp add: tagged_push_def fmlookup_of_list)
  from 1 2 3 4 show ?thesis by blast
qed

text \<open>
  C6, as the claim states it, fails in its last part: on a full platform the actions
  a payload supplied are not kept, the two fixed entries replace them.
\<close>

theorem supplied_actions_replaced_counterexample:
  "\<not> isIOS desktop_env
   \<and> fmlookup (apply_payload (default_notification desktop_env) (Some snooze_push)) ''actions''
       = Some snooze_actions
   \<and> fmlookup (push_notification desktop_env (Some snooze_push)) ''actions''
       = Some default_actions
   \<and> default_actions \<noteq> snooze_actions"
proof -
  have 1: "fmlookup (apply_payload (default_notification desktop_env) (Some snooze_push)) ''actions''
       = Some snooze_actions"
    by (simp add: snooze_push_def apply_payload_parsed lookup_merge_push fmlookup_of_list)
  have 2: "fmlookup (push_notification desktop_env (Some snooze_push)) ''actions''
       = Some default_actions"
    using desktop_not_ios by (simp add: push_notification_def adapt_platform_def)
  have 3: "default_actions \<noteq> snooze_actions"
    by (simp add: default_actions_def snooze_actions_def)
  from desktop_not_ios 1 2 3 show ?thesis by blast
qed

text \<open>
  C6 (amended). For every push event, on an iOS user agent the notification has no
  \<open>actions\<close> property and its vibration pattern is the three-element one; on any
  other user agent its \<open>actions\<close> are the two fixed entries, \<open>open\<close> and
  \<open>dismiss\<close>, whether or not the payload supplied actions.
\<close>

theorem platform_pass:
  "(isIOS env \<longrightarrow>
      fmlookup (push_notification env event_data) ''actions'' = None
      \<and> fmlookup (push_notification env event_data) ''vibrate'' = Some ios_vibrate
      \<and> (\<exists>xs. ios_vibrate = JArr xs \<and> length xs = 3))
   \<and> (\<not> isIOS env \<longrightarrow>
      fmlookup (push_notification env event_data) ''actions'' = Some default_actions
      \<and> (\<exists>a b. default_actions = JArr [a, b]
            \<and> get_prop a ''action'' = Some (JStr (units ''open''))
            \<and> get_prop b ''action'' = Some (JStr (units ''dismiss''))))"
proof -
  have v: "\<exists>xs. ios_vibrate = JArr xs \<and> length xs = 3"
    by (simp add: ios_vibrate_def)
  have a: "\<exists>a b. default_actions = JArr [a, b]
            \<and> get_prop a ''action'' = Some (JStr (units ''open''))
            \<and> get_prop b ''action'' = Some (JStr (units ''dismiss''))"
    by (simp add: default_actions_def fmlookup_of_list)
  from v a show ?thesis
    by (simp add: push_notification_def adapt_platform_def)
qed

theorem platform_pass_witness:
  "isIOS iphone_env
   \<and> fmlookup (push_notification iphone_env (Some snooze_push)) ''actions'' = None
   \<and> fmlookup (push_notification iphone_env (Some snooze_push)) ''vibrate'' = Some ios_vibrate
   \<and> \<not> isIOS desktop_env
   \<and> fmlookup (push_notification desktop_env (Some snooze_push)) ''actions''
       = Some default_actions"
  using iphone_is_ios desktop_not_ios
    platform_pass [of iphone_env "Some snooze_push"]
    platform_pass [of desktop_env "Some snooze_push"]
  by simp

text \<open>
  C7. When the payload does not parse, the exception of \<open>json()\<close> is caught and the
  descriptor that the payload step yields is the default one with \<open>body\<close> set to the
  text of the payload: every other property is the default's. In the notification
  that is shown the body is still that text, and every other property is still the
  default's, those the platform pass sets (\<open>actions\<close>, \<open>badge\<close>, \<open>vibrate\<close>)
  apart.
\<close>

theorem unparsable_payload_becomes_body:
  assumes "json_of d = Inl e"
  shows "try_merge (default_notification env) d = Inl e
         \<and> apply_payload (default_notification env) (Some d)
             = fmupd ''body'' (JStr (text_of d)) (default_notification env)
         \<and> fmlookup (apply_payload (default_notification env) (Some d)) ''body''
             = Some (JStr (text_of d))
         \<and> (\<forall>k. k \<noteq> ''body'' \<longrightarrow>
               fmlookup (apply_payload (default_notification env) (Some d)) k
                 = fmlookup (default_notification env) k)
         \<and> fmlookup (push_notification env (Some d)) ''body'' = Some (JStr (text_of d))
         \<and> (\<forall>k. k \<noteq> ''body'' \<and> k \<noteq> ''actions'' \<and> k \<noteq> ''vibrate'' \<and> k \<noteq> ''badge'' \<longrightarrow>
               fmlookup (push_notification env (Some d)) k
                 = fmlookup (default_notification env) k)"
proof (intro conjI allI impI)
  have ap: "apply_payload (default_notification env) (Some d)
              = fmupd ''body'' (JStr (text_of d)) (default_notification env)"
    using assms by (rule apply_payload_unparsed)
  show "try_merge (default_notification env) d = Inl e"
    using assms by (simp add: try_merge_def)
  show "apply_payload (default_notification env) (Some d)
          = fmupd ''body'' (JStr (text_of d)) (default_notification env)"
    by (rule ap)
  show "fmlookup (apply_payload (default_notification env) (Some d)) ''body''
          = Some (JStr (text_of d))"
    by (simp add: ap)
  show "fmlookup (push_notification env (Some d)) ''body'' = Some (JStr (text_of d))"
    by (simp add: push_notification_def lookup_adapt_other ap)
  fix k
  {
    assume "k \<noteq> ''body''"
    then have "''body'' \<noteq> k" by (rule not_sym)
    then show "fmlookup (apply_payload (default_notification env) (Some d)) k
                 = fmlookup (default_notification env) k"
      by (simp add: ap)
  }
  assume k: "k \<noteq> ''body'' \<and> k \<noteq> ''actions'' \<and> k \<noteq> ''vibrate'' \<and> k \<noteq> ''badge''"
  show "fmlookup (push_notification env (Some d)) k = fmlookup (default_notification env) k"
  proof (cases "k = ''requireInteraction''")
    case True
    then show ?thesis
      by (simp add: push_notification_def adapt_platform_def ap lookup_default_require)
  next
    case False
    from k have "''body'' \<noteq> k" by (simp add: not_sym)
    with k False show ?thesis
      by (simp add: push_notification_def lookup_adapt_other ap)
  qed
qed

theorem unparsable_payload_becomes_body_witness:
  "json_of call_mom_push = Inl SyntaxError
   \<and> fmlookup (apply_payload (default_notification desktop_env) (Some call_mom_push)) ''body''
       = Some (JStr (units ''Call mom''))
   \<and> fmlookup (apply_payload (default_notification desktop_env) (Some call_mom_push)) ''tag''
       = Some (JStr (units ''reminder-notification''))"
proof -
  have h: "json_of call_mom_push = Inl SyntaxError" by (simp add: call_mom_push_def)
  note t = unparsable_payload_becomes_body [OF h, of desktop_env]
  note t3 = t [THEN conjunct2, THEN conjunct2, THEN conjunct1]
  note t4 = t [THEN conjunct2, THEN conjunct2, THEN conjunct2, THEN conjunct1]
  from t3 have 1:
    "fmlookup (apply_payload (default_notification desktop_env) (Some call_mom_push)) ''body''
       = Some (JStr (units ''Call mom''))"
    by (simp add: call_mom_push_def)
  from t4 [THEN spec, of "''tag''"] have 2:
    "fmlookup (apply_payload (default_notification desktop_env) (Some call_mom_push)) ''tag''
       = Some (JStr (units ''reminder-notification''))"
    by (simp add: lookup_default_tag)
  from h 1 2 show ?thesis by (intro conjI)
qed

subsection \<open>The message listener\<close>

text \<open>
  C10. For every message at most one of the three branches is entered: each tests
  the one \<open>type\<close> property of the message data against a different constant, so no
  two of the tests hold together.
\<close>

theorem message_at_most_one_branch:
  "length (entered (message_listener ev)) \<le> 1
   \<and> \<not> (type_is ev ''SKIP_WAITING'' \<and> type_is ev ''GET_VERSION'')
   \<and> \<not> (type_is ev ''SKIP_WAITING'' \<and> type_is ev ''SYNC_REMINDERS'')
   \<and> \<not> (type_is ev ''GET_VERSION'' \<and> type_is ev ''SYNC_REMINDERS'')"
proof -
  have a: "\<not> (type_is ev ''SKIP_WAITING'' \<and> type_is ev ''GET_VERSION'')"
    using type_is_unique [of ev "''SKIP_WAITING''" "''GET_VERSION''"] by auto
  have b: "\<not> (type_is ev ''SKIP_WAITING'' \<and> type_is ev ''SYNC_REMINDERS'')"
    using type_is_unique [of ev "''SKIP_WAITING''" "''SYNC_REMINDERS''"] by auto
  have c: "\<not> (type_is ev ''GET_VERSION'' \<and> type_is ev ''SYNC_REMINDERS'')"
    using type_is_unique [of ev "''GET_VERSION''" "''SYNC_REMINDERS''"] by auto
  have "length (entered (message_listener ev)) \<le> 1"
    using a b c by (auto simp: message_listener_def Let_def split: list.splits)
  with a b c show ?thesis by blast
qed

theorem message_at_most_one_branch_witness:
  "entered (message_listener
      \<lparr>msg_data = Some (JObj (fmap_of_list [(''type'', JStr (units ''GET_VERSION''))])), ports = [7]\<rparr>)
     = [GetVersion]
   \<and> length (entered (message_listener
      \<lparr>msg_data = Some (JObj (fmap_of_list [(''type'', JStr (units ''GET_VERSION''))])), ports = [7]\<rparr>))
     \<le> 1"
  using message_at_most_one_branch
    [of "\<lparr>msg_data = Some (JObj (fmap_of_list [(''type'', JStr (units ''GET_VERSION''))])), ports = [7]\<rparr>"]
  by (simp add: message_listener_def type_is_def fmlookup_of_list)

end
